theory Spec2Isabelle
  imports Complex_Main
begin

section \<open>Comparable discovery: data model\<close>

text \<open>
  The development embeds \<^verbatim>\<open>backend/agents/comparable_discovery_agent.py\<close> and the
  two pydantic models it uses from \<^verbatim>\<open>backend/models/property_models.py\<close>.

  Python floats are read as real numbers: rounding, infinities and NaN are outside the
  model. Python's unbounded \<^verbatim>\<open>int\<close> is \<open>int\<close>. Strings are byte strings; the case
  conversions below act on the ASCII letters only.
\<close>

datatype error = ZeroDivisionError | AttributeError

text \<open>
  \<^verbatim>\<open>PropertyResponse\<close>: the fields the agent reads. The remaining fields of the
  pydantic model (zip code, property type, market value, sale date, data source,
  last update, verification flag, outlier flags) are carried along unread.
\<close>

record PropertyResponse =
  id :: string
  county_id :: string
  address :: string
  city :: string
  state :: string
  zoning_code :: "string option"
  building_area :: "real option"
  lot_area :: "real option"
  year_built :: "int option"
  assessed_value :: "real option"
  sale_price :: "real option"
  latitude :: "real option"
  longitude :: "real option"
  quality_score :: "real option"

text \<open>\<^verbatim>\<open>SimilarityFactors\<close>, with the defaults of the class body.\<close>

record SimilarityFactors =
  sale_price_weight :: real
  size_weight :: real
  value_weight :: real
  location_weight :: real
  age_weight :: real
  zoning_weight :: real
  max_distance_miles :: real
  size_tolerance_percent :: real
  age_tolerance_years :: int
  value_tolerance_percent :: real

definition SimilarityFactors_default :: SimilarityFactors where
  "SimilarityFactors_default =
     \<lparr> sale_price_weight = 0.35, size_weight = 0.25, value_weight = 0.20,
       location_weight = 0.10, age_weight = 0.05, zoning_weight = 0.05,
       max_distance_miles = 10.0, size_tolerance_percent = 0.5,
       age_tolerance_years = 10, value_tolerance_percent = 0.3 \<rparr>"

text \<open>
  \<^verbatim>\<open>ComparableProperty\<close>. The breakdown is a Python dict, kept as an association
  list in insertion order.
\<close>

record ComparableProperty =
  property :: PropertyResponse
  similarity_score :: real
  distance_miles :: "real option"
  similarity_factors :: "(string \<times> real) list"
  confidence_score :: real

subsection \<open>Python truthiness and string helpers\<close>

text \<open>\<^verbatim>\<open>if x\<close> on an optional number: \<^verbatim>\<open>None\<close> and zero are false.\<close>

fun truthy_float :: "real option \<Rightarrow> bool" where
  "truthy_float None = False"
| "truthy_float (Some x) = (x \<noteq> 0)"

fun truthy_int :: "int option \<Rightarrow> bool" where
  "truthy_int None = False"
| "truthy_int (Some n) = (n \<noteq> 0)"

text \<open>\<^verbatim>\<open>if s\<close> on a string: the empty string is false.\<close>

definition truthy_str :: "string \<Rightarrow> bool" where
  "truthy_str s = (s \<noteq> [])"

fun truthy_opt_str :: "string option \<Rightarrow> bool" where
  "truthy_opt_str None = False"
| "truthy_opt_str (Some s) = truthy_str s"

definition upper_char :: "char \<Rightarrow> char" where
  "upper_char c =
     (let n = (of_char c :: nat) in if 97 \<le> n \<and> n \<le> 122 then char_of (n - 32) else c)"

definition lower_char :: "char \<Rightarrow> char" where
  "lower_char c =
     (let n = (of_char c :: nat) in if 65 \<le> n \<and> n \<le> 90 then char_of (n + 32) else c)"

definition upper :: "string \<Rightarrow> string" where
  "upper s = map upper_char s"

definition lower :: "string \<Rightarrow> string" where
  "lower s = map lower_char s"

text \<open>\<^verbatim>\<open>needle in haystack\<close> on strings.\<close>

fun starts_with :: "string \<Rightarrow> string \<Rightarrow> bool" where
  "starts_with [] hay = True"
| "starts_with (n # ns) [] = False"
| "starts_with (n # ns) (h # hs) = (n = h \<and> starts_with ns hs)"

fun str_in :: "string \<Rightarrow> string \<Rightarrow> bool" where
  "str_in needle [] = (needle = [])"
| "str_in needle (h # hs) = (starts_with needle (h # hs) \<or> str_in needle hs)"

section \<open>Factor scorers\<close>

definition calculate_location_similarity ::
  "PropertyResponse \<Rightarrow> PropertyResponse \<Rightarrow> real" where
  "calculate_location_similarity target candidate =
     (if lower (city target) = lower (city candidate) then 1.0
      else if county_id target = county_id candidate then 0.8
      else 0.3)"

definition calculate_size_similarity ::
  "PropertyResponse \<Rightarrow> PropertyResponse \<Rightarrow> real" where
  "calculate_size_similarity target candidate =
     (case (building_area target, building_area candidate) of
        (Some ta, Some ca) \<Rightarrow>
          if ta = 0 \<or> ca = 0 then 0.0
          else
            let larger = max ta ca; smaller = min ta ca in
            if larger = 0 then 0.0
            else
              let ratio = smaller / larger in
              if ratio \<ge> 0.5 then ratio else ratio * 0.5
      | _ \<Rightarrow> 0.0)"

text \<open>
  The two divisions of the age scorer are divisions of Python integers: a zero divisor
  raises \<^verbatim>\<open>ZeroDivisionError\<close>.
\<close>

definition int_truediv :: "int \<Rightarrow> int \<Rightarrow> error + real" where
  "int_truediv a b = (if b = 0 then Inl ZeroDivisionError else Inr (real_of_int a / real_of_int b))"

definition calculate_age_similarity ::
  "SimilarityFactors \<Rightarrow> PropertyResponse \<Rightarrow> PropertyResponse \<Rightarrow> error + real" where
  "calculate_age_similarity sf target candidate =
     (case (year_built target, year_built candidate) of
        (Some ty, Some cy) \<Rightarrow>
          if ty = 0 \<or> cy = 0 then Inr 0.5
          else
            let age_diff = \<bar>ty - cy\<bar>; tolerance = age_tolerance_years sf in
            if age_diff \<le> tolerance then
              (case int_truediv age_diff tolerance of
                 Inl e \<Rightarrow> Inl e
               | Inr q \<Rightarrow> Inr (1.0 - (q * 0.5)))
            else
              (case int_truediv (age_diff - tolerance) (tolerance * 2) of
                 Inl e \<Rightarrow> Inl e
               | Inr q \<Rightarrow> Inr (max 0.0 (0.5 - q)))
      | _ \<Rightarrow> Inr 0.5)"

definition industrial_codes :: "string list" where
  "industrial_codes =
     [''M1'', ''M2'', ''M3'', ''I-1'', ''I-2'', ''I-3'', ''I1'', ''I2'', ''I3'', ''INDUSTRIAL'']"

definition calculate_zoning_similarity ::
  "PropertyResponse \<Rightarrow> PropertyResponse \<Rightarrow> real" where
  "calculate_zoning_similarity target candidate =
     (case (zoning_code target, zoning_code candidate) of
        (Some tz, Some cz) \<Rightarrow>
          if \<not> truthy_str tz \<or> \<not> truthy_str cz then 0.5
          else
            let target_zoning = upper tz; candidate_zoning = upper cz in
            if target_zoning = candidate_zoning then 1.0
            else if target_zoning \<in> set industrial_codes \<and> candidate_zoning \<in> set industrial_codes
              then 0.8
            else if str_in ''INDUSTRIAL'' target_zoning \<and> str_in ''INDUSTRIAL'' candidate_zoning
              then 0.7
            else if str_in ''MANUFACTURING'' target_zoning \<and> str_in ''MANUFACTURING'' candidate_zoning
              then 0.7
            else if str_in ''WAREHOUSE'' target_zoning \<and> str_in ''WAREHOUSE'' candidate_zoning
              then 0.7
            else 0.3
      | _ \<Rightarrow> 0.5)"

definition calculate_value_similarity ::
  "SimilarityFactors \<Rightarrow> PropertyResponse \<Rightarrow> PropertyResponse \<Rightarrow> real" where
  "calculate_value_similarity sf target candidate =
     (case (assessed_value target, assessed_value candidate) of
        (Some tv, Some cv) \<Rightarrow>
          if tv = 0 \<or> cv = 0 then 0.5
          else
            let larger = max tv cv; smaller = min tv cv in
            if larger = 0 then 0.0
            else
              let ratio = smaller / larger; tolerance = value_tolerance_percent sf in
              if ratio \<ge> 1 - tolerance then 1.0 else max 0.0 ratio
      | _ \<Rightarrow> 0.5)"

definition calculate_sale_price_similarity ::
  "PropertyResponse \<Rightarrow> PropertyResponse \<Rightarrow> real" where
  "calculate_sale_price_similarity target candidate =
     (case (sale_price target, sale_price candidate) of
        (Some tp, Some cp) \<Rightarrow>
          if tp = 0 \<or> cp = 0 then 0.5
          else
            let larger = max tp cp; smaller = min tp cp in
            if larger = 0 then 0.0
            else
              let ratio = smaller / larger; tolerance = 0.3 in
              if ratio \<ge> 1 - tolerance then 1.0 else max 0.0 ratio
      | _ \<Rightarrow> 0.5)"

section \<open>Distance and confidence\<close>

definition radians :: "real \<Rightarrow> real" where
  "radians x = x * pi / 180"

definition calculate_distance :: "PropertyResponse \<Rightarrow> PropertyResponse \<Rightarrow> real" where
  "calculate_distance target candidate =
     (if \<not> (truthy_float (latitude target) \<and> truthy_float (longitude target) \<and>
             truthy_float (latitude candidate) \<and> truthy_float (longitude candidate)) then
        (if lower (city target) = lower (city candidate) then 5.0
         else if county_id target = county_id candidate then 25.0
         else 100.0)
      else
        let lat1 = radians (the (latitude target)); lon1 = radians (the (longitude target));
            lat2 = radians (the (latitude candidate)); lon2 = radians (the (longitude candidate));
            dlat = lat2 - lat1; dlon = lon2 - lon1;
            a = (sin (dlat / 2))\<^sup>2 + cos lat1 * cos lat2 * (sin (dlon / 2))\<^sup>2;
            c = 2 * arcsin (sqrt a);
            radius_miles = 3959
        in radius_miles * c)"

text \<open>
  \<^verbatim>\<open>calculate_data_completeness\<close>: the two loops count the fields and the truthy ones.
\<close>

definition essential_fields :: "PropertyResponse \<Rightarrow> bool list" where
  "essential_fields prop =
     [truthy_str (address prop), truthy_str (city prop), truthy_str (state prop),
      truthy_float (building_area prop), truthy_opt_str (zoning_code prop),
      truthy_str (county_id prop)]"

definition optional_fields :: "PropertyResponse \<Rightarrow> bool list" where
  "optional_fields prop =
     [truthy_int (year_built prop), truthy_float (assessed_value prop),
      truthy_float (latitude prop), truthy_float (longitude prop),
      truthy_float (lot_area prop)]"

fun count_fields :: "bool list \<Rightarrow> nat \<times> nat \<Rightarrow> nat \<times> nat" where
  "count_fields [] (total_fields, completed_fields) = (total_fields, completed_fields)"
| "count_fields (field # more_fields) (total_fields, completed_fields) =
     count_fields more_fields
       (total_fields + 1, if field then completed_fields + 1 else completed_fields)"

definition calculate_data_completeness :: "PropertyResponse \<Rightarrow> real" where
  "calculate_data_completeness prop =
     (let (total_fields, completed_fields) =
            count_fields (optional_fields prop) (count_fields (essential_fields prop) (0, 0))
      in if total_fields > 0 then real completed_fields / real total_fields else 0.0)"

text \<open>\<^verbatim>\<open>x or 0.5\<close> on an optional float.\<close>

definition or_default :: "real option \<Rightarrow> real \<Rightarrow> real" where
  "or_default x d = (if truthy_float x then the x else d)"

definition calculate_confidence_score ::
  "PropertyResponse \<Rightarrow> PropertyResponse \<Rightarrow> real" where
  "calculate_confidence_score target candidate =
     (let target_completeness = calculate_data_completeness target;
          candidate_completeness = calculate_data_completeness candidate;
          avg_completeness = (target_completeness + candidate_completeness) / 2;
          target_quality = or_default (quality_score target) 0.5;
          candidate_quality = or_default (quality_score candidate) 0.5;
          avg_quality = (target_quality + candidate_quality) / 2;
          confidence = (avg_completeness * 0.6) + (avg_quality * 0.4)
      in min 1.0 confidence)"

section \<open>Weighted aggregation\<close>

definition calculate_similarity ::
  "SimilarityFactors \<Rightarrow> PropertyResponse \<Rightarrow> PropertyResponse
     \<Rightarrow> error + (real \<times> (string \<times> real) list \<times> real)" where
  "calculate_similarity factors target_property candidate =
     (let location_score = calculate_location_similarity target_property candidate;
          size_score = calculate_size_similarity target_property candidate
      in case calculate_age_similarity factors target_property candidate of
           Inl e \<Rightarrow> Inl e
         | Inr age_score \<Rightarrow>
             let zoning_score = calculate_zoning_similarity target_property candidate;
                 value_score = calculate_value_similarity factors target_property candidate;
                 sale_price_score = calculate_sale_price_similarity target_property candidate;
                 score =
                   location_score * location_weight factors +
                   size_score * size_weight factors +
                   age_score * age_weight factors +
                   zoning_score * zoning_weight factors +
                   value_score * value_weight factors +
                   sale_price_score * sale_price_weight factors;
                 factor_scores =
                   [(''location'', location_score), (''size'', size_score),
                    (''age'', age_score), (''zoning'', zoning_score),
                    (''value'', value_score), (''sale_price'', sale_price_score)];
                 confidence = calculate_confidence_score target_property candidate
             in Inr (score, factor_scores, confidence))"

definition calculate_detailed_similarity_factors ::
  "SimilarityFactors \<Rightarrow> PropertyResponse \<Rightarrow> PropertyResponse
     \<Rightarrow> error + (string \<times> real) list" where
  "calculate_detailed_similarity_factors factors target candidate =
     (let location_score = calculate_location_similarity target candidate;
          size_score = calculate_size_similarity target candidate
      in case calculate_age_similarity factors target candidate of
           Inl e \<Rightarrow> Inl e
         | Inr age_score \<Rightarrow>
             let zoning_score = calculate_zoning_similarity target candidate;
                 value_score = calculate_value_similarity factors target candidate
             in Inr [(''location'', location_score), (''size'', size_score),
                     (''age'', age_score), (''zoning'', zoning_score),
                     (''value'', value_score)])"

section \<open>Scoring candidates\<close>

text \<open>
  \<^verbatim>\<open>traditional_score_candidates\<close>: the loop appends to \<^verbatim>\<open>scored_properties\<close>; an
  exception of the scorer leaves the loop and the function.
\<close>

fun traditional_loop ::
  "SimilarityFactors \<Rightarrow> PropertyResponse \<Rightarrow> PropertyResponse list
     \<Rightarrow> ComparableProperty list \<Rightarrow> error + ComparableProperty list" where
  "traditional_loop factors target_property [] scored_properties = Inr scored_properties"
| "traditional_loop factors target_property (candidate # candidates) scored_properties =
     (if id candidate = id target_property then
        traditional_loop factors target_property candidates scored_properties
      else
        case calculate_similarity factors target_property candidate of
          Inl e \<Rightarrow> Inl e
        | Inr (score, factor_scores, confidence) \<Rightarrow>
            if score > 0.3 then
              let distance = calculate_distance target_property candidate;
                  comparable =
                    \<lparr> property = candidate, similarity_score = score,
                      distance_miles = Some distance,
                      similarity_factors = factor_scores,
                      confidence_score = confidence \<rparr>
              in traditional_loop factors target_property candidates
                   (scored_properties @ [comparable])
            else traditional_loop factors target_property candidates scored_properties)"

definition traditional_score_candidates ::
  "SimilarityFactors \<Rightarrow> PropertyResponse \<Rightarrow> PropertyResponse list
     \<Rightarrow> error + ComparableProperty list" where
  "traditional_score_candidates factors target_property candidates =
     traditional_loop factors target_property candidates []"

text \<open>
  The language-model service is outside the program. Its answer to the call for one
  batch is one of: the call (or reading the reply) raises; the reply is not JSON
  (\<^verbatim>\<open>json.JSONDecodeError\<close>); the reply parses to a list of entries. An entry is a JSON
  object, read with \<^verbatim>\<open>.get\<close> (the defaults \<^verbatim>\<open>0.0\<close> already applied, the id \<open>None\<close>
  when it is absent or not a string), or something else, on which \<^verbatim>\<open>.get\<close> raises.
\<close>

datatype score_data =
  ScoreData "string option" real real
| NotAnObject

datatype ai_reply = CallRaises | JSONDecodeError | Scores "score_data list"

text \<open>\<^verbatim>\<open>next((c for c in batch if c.id == candidate_id), None)\<close>\<close>

fun find_candidate :: "PropertyResponse list \<Rightarrow> string option \<Rightarrow> PropertyResponse option" where
  "find_candidate [] candidate_id = None"
| "find_candidate (c # cs) candidate_id =
     (if Some (id c) = candidate_id then Some c else find_candidate cs candidate_id)"

text \<open>
  The loop over the parsed entries. It returns the list built so far and the exception
  that stopped it, if any: the entries appended before an exception stay in
  \<^verbatim>\<open>scored_properties\<close>.
\<close>

fun process_scores ::
  "SimilarityFactors \<Rightarrow> PropertyResponse \<Rightarrow> PropertyResponse list \<Rightarrow> score_data list
     \<Rightarrow> ComparableProperty list \<Rightarrow> ComparableProperty list \<times> error option" where
  "process_scores factors target_property batch [] scored_properties =
     (scored_properties, None)"
| "process_scores factors target_property batch (NotAnObject # ai_scores) scored_properties =
     (scored_properties, Some AttributeError)"
| "process_scores factors target_property batch
       (ScoreData candidate_id score confidence # ai_scores) scored_properties =
     (case find_candidate batch candidate_id of
        None \<Rightarrow> process_scores factors target_property batch ai_scores scored_properties
      | Some candidate \<Rightarrow>
          if score > 0.3 then
            let distance = calculate_distance target_property candidate in
            case calculate_detailed_similarity_factors factors target_property candidate of
              Inl e \<Rightarrow> (scored_properties, Some e)
            | Inr factor_scores \<Rightarrow>
                let comparable =
                      \<lparr> property = candidate, similarity_score = score,
                        distance_miles = Some distance,
                        similarity_factors = factor_scores,
                        confidence_score = confidence \<rparr>
                in process_scores factors target_property batch ai_scores
                     (scored_properties @ [comparable])
          else process_scores factors target_property batch ai_scores scored_properties)"

text \<open>Both \<^verbatim>\<open>except\<close> branches: score the batch traditionally and extend the list.\<close>

definition fallback_batch ::
  "SimilarityFactors \<Rightarrow> PropertyResponse \<Rightarrow> PropertyResponse list
     \<Rightarrow> ComparableProperty list \<Rightarrow> error + ComparableProperty list" where
  "fallback_batch factors target_property batch scored_properties =
     (case traditional_score_candidates factors target_property batch of
        Inl e \<Rightarrow> Inl e
      | Inr batch_scored \<Rightarrow> Inr (scored_properties @ batch_scored))"

definition score_batch ::
  "SimilarityFactors \<Rightarrow> PropertyResponse \<Rightarrow> ai_reply \<Rightarrow> PropertyResponse list
     \<Rightarrow> ComparableProperty list \<Rightarrow> error + ComparableProperty list" where
  "score_batch factors target_property reply batch scored_properties =
     (case reply of
        CallRaises \<Rightarrow> fallback_batch factors target_property batch scored_properties
      | JSONDecodeError \<Rightarrow> fallback_batch factors target_property batch scored_properties
      | Scores ai_scores \<Rightarrow>
          (case process_scores factors target_property batch ai_scores scored_properties of
             (scored, None) \<Rightarrow> Inr scored
           | (scored, Some e) \<Rightarrow> fallback_batch factors target_property batch scored))"

definition batch_size :: nat where
  "batch_size = 5"

text \<open>
  \<^verbatim>\<open>ai_score_candidates\<close>: \<open>rest\<close> is \<^verbatim>\<open>candidates[i:]\<close> and \<open>n\<close> the number of the
  batch, \<^verbatim>\<open>i // batch_size\<close>; \<open>ai n\<close> is the service's answer for that batch.
\<close>

function ai_loop ::
  "SimilarityFactors \<Rightarrow> PropertyResponse \<Rightarrow> (nat \<Rightarrow> ai_reply) \<Rightarrow> nat
     \<Rightarrow> PropertyResponse list \<Rightarrow> ComparableProperty list \<Rightarrow> error + ComparableProperty list" where
  "ai_loop factors target_property ai n rest scored_properties =
     (if rest = [] then Inr scored_properties
      else
        case score_batch factors target_property (ai n) (take batch_size rest) scored_properties of
          Inl e \<Rightarrow> Inl e
        | Inr scored \<Rightarrow>
            ai_loop factors target_property ai (n + 1) (drop batch_size rest) scored)"
  by pat_completeness auto
termination
  by (relation "measure (\<lambda>(factors, target_property, ai, n, rest, scored). length rest)")
     (auto simp: batch_size_def)

declare ai_loop.simps [simp del]

definition ai_score_candidates ::
  "SimilarityFactors \<Rightarrow> PropertyResponse \<Rightarrow> (nat \<Rightarrow> ai_reply) \<Rightarrow> PropertyResponse list
     \<Rightarrow> error + ComparableProperty list" where
  "ai_score_candidates factors target_property ai candidates =
     ai_loop factors target_property ai 0 candidates []"

section \<open>find_comparables\<close>

text \<open>The agent object: its factors and the API key of its client.\<close>

record agent =
  agent_similarity_factors :: SimilarityFactors
  api_key :: string

text \<open>\<^verbatim>\<open>__init__\<close>, given the value of the environment variable.\<close>

definition init_agent :: "string \<Rightarrow> agent" where
  "init_agent key = \<lparr> agent_similarity_factors = SimilarityFactors_default, api_key = key \<rparr>"

text \<open>\<^verbatim>\<open>xs[:n]\<close>: a negative \<open>n\<close> counts from the end.\<close>

definition slice_to :: "'a list \<Rightarrow> int \<Rightarrow> 'a list" where
  "slice_to xs n = (if n \<ge> 0 then take (nat n) xs else take (nat (int (length xs) + n)) xs)"

text \<open>
  \<^verbatim>\<open>sort(key=..., reverse=True)\<close> is stable and descending: a stable ascending sort on
  the negated key.
\<close>

definition sort_descending :: "ComparableProperty list \<Rightarrow> ComparableProperty list" where
  "sort_descending xs = sort_key (\<lambda>x. - similarity_score x) xs"

text \<open>
  \<open>candidates\<close> is what \<^verbatim>\<open>get_candidate_properties\<close> read from the store.
\<close>

definition find_comparables ::
  "agent \<Rightarrow> (nat \<Rightarrow> ai_reply) \<Rightarrow> PropertyResponse \<Rightarrow> PropertyResponse list \<Rightarrow> int
     \<Rightarrow> error + ComparableProperty list" where
  "find_comparables self ai target_property candidates max_results =
     (if candidates = [] then Inr []
      else
        case (if truthy_str (api_key self)
              then ai_score_candidates (agent_similarity_factors self) target_property ai candidates
              else traditional_score_candidates (agent_similarity_factors self) target_property candidates) of
          Inl e \<Rightarrow> Inl e
        | Inr scored_properties \<Rightarrow> Inr (slice_to (sort_descending scored_properties) max_results))"

section \<open>Example parcels\<close>

text \<open>Concrete parcels, used where a statement is evaluated at an input.\<close>

definition blank_parcel :: PropertyResponse where
  "blank_parcel = \<lparr> id = [], county_id = [], address = [], city = [], state = [],
     zoning_code = None, building_area = None, lot_area = None, year_built = None,
     assessed_value = None, sale_price = None, latitude = None, longitude = None,
     quality_score = None \<rparr>"

definition example_target :: PropertyResponse where
  "example_target = blank_parcel \<lparr> id := ''T1'', county_id := ''cook'',
     address := ''1 Main St'', city := ''Chicago'', state := ''IL'',
     zoning_code := Some ''M-1'', building_area := Some 50000, year_built := Some 2000,
     assessed_value := Some 2000000 \<rparr>"

definition example_candidate :: PropertyResponse where
  "example_candidate = blank_parcel \<lparr> id := ''C1'', county_id := ''cook'',
     address := ''2 Main St'', city := ''chicago'', state := ''IL'',
     zoning_code := Some ''M-1'', building_area := Some 55000, year_built := Some 2005,
     assessed_value := Some 2100000 \<rparr>"

definition example_candidate_large :: PropertyResponse where
  "example_candidate_large = example_candidate\<lparr>id := ''C2'', building_area := Some 100000\<rparr>"

text \<open>The comparables that the scorers build from these parcels.\<close>

definition example_scored_large :: ComparableProperty where
  "example_scored_large =
     \<lparr> property = example_candidate_large, similarity_score = 11 / 16,
       distance_miles = Some 5,
       similarity_factors =
         [(''location'', 1), (''size'', 0.5), (''age'', 0.75), (''zoning'', 1),
          (''value'', 1), (''sale_price'', 0.5)],
       confidence_score = 7 / 11 \<rparr>"

definition example_scored :: ComparableProperty where
  "example_scored =
     \<lparr> property = example_candidate, similarity_score = 139 / 176,
       distance_miles = Some 5,
       similarity_factors =
         [(''location'', 1), (''size'', 10 / 11), (''age'', 0.75), (''zoning'', 1),
          (''value'', 1), (''sale_price'', 0.5)],
       confidence_score = 7 / 11 \<rparr>"

definition example_ai_scored :: ComparableProperty where
  "example_ai_scored =
     \<lparr> property = example_candidate, similarity_score = 0.85, distance_miles = Some 5,
       similarity_factors =
         [(''location'', 1), (''size'', 10 / 11), (''age'', 0.75), (''zoning'', 1), (''value'', 1)],
       confidence_score = 0.9 \<rparr>"

section \<open>The zoning scorer\<close>

lemma upper_fixed:
  "upper ''M-1'' = ''M-1''" "upper ''I-2'' = ''I-2''" "upper ''M1'' = ''M1''"
  "upper ''RESIDENTIAL'' = ''RESIDENTIAL''"
  by (simp_all add: upper_def upper_char_def)

lemma industrial_codes_spelling:
  "''M-1'' \<notin> set industrial_codes" "''M1'' \<in> set industrial_codes"
  "''I-2'' \<in> set industrial_codes"
  by (simp_all add: industrial_codes_def)

text \<open>
  C5 asks the zoning scorer for 1.0 on the pair \<open>(''M-1'', ''M-1'')\<close>, for 0.8 on
  \<open>(''M-1'', ''I-2'')\<close> as two different industrial codes, and for 0.3 on
  \<open>(''M-1'', ''RESIDENTIAL'')\<close>. The first and the last hold. On \<open>(''M-1'', ''I-2'')\<close>
  the scorer returns 0.3: its set of industrial codes lists the I codes with and without
  the hyphen but the M codes only as \<open>''M1''\<close>, \<open>''M2''\<close>, \<open>''M3''\<close>, while the ingestion
  stores them as \<open>''M-1''\<close>, \<open>''M-2''\<close>, \<open>''M-3''\<close>; so the branch commented
  \<^verbatim>\<open>Both industrial but different types\<close> is missed for every stored M code.
\<close>

theorem zoning_hyphenated_M_code:
  "calculate_zoning_similarity (blank_parcel\<lparr>zoning_code := Some ''M-1''\<rparr>)
      (blank_parcel\<lparr>zoning_code := Some ''I-2''\<rparr>) = 0.3 \<and>
   calculate_zoning_similarity (blank_parcel\<lparr>zoning_code := Some ''M1''\<rparr>)
      (blank_parcel\<lparr>zoning_code := Some ''I-2''\<rparr>) = 0.8 \<and>
   calculate_zoning_similarity (blank_parcel\<lparr>zoning_code := Some ''M-1''\<rparr>)
      (blank_parcel\<lparr>zoning_code := Some ''M-1''\<rparr>) = 1.0 \<and>
   calculate_zoning_similarity (blank_parcel\<lparr>zoning_code := Some ''M-1''\<rparr>)
      (blank_parcel\<lparr>zoning_code := Some ''RESIDENTIAL''\<rparr>) = 0.3"
  by (simp add: calculate_zoning_similarity_def truthy_str_def upper_fixed industrial_codes_def)

theorem zoning_hyphenated_M_code_witness:
  "truthy_str ''M-1'' \<and> truthy_str ''I-2'' \<and> upper ''M-1'' = ''M-1'' \<and>
   upper ''I-2'' = ''I-2'' \<and>
   calculate_zoning_similarity (blank_parcel\<lparr>zoning_code := Some ''M-1''\<rparr>)
      (blank_parcel\<lparr>zoning_code := Some ''I-2''\<rparr>) = 0.3"
  using zoning_hyphenated_M_code by (simp add: truthy_str_def upper_fixed)

section \<open>The size scorer\<close>

text \<open>
  C8: the size scorer is symmetric, and a parcel with a nonzero building area scores
  1.0 against itself.
\<close>

theorem size_symmetric_reflexive:
  "calculate_size_similarity a b = calculate_size_similarity b a \<and>
   (\<forall>x. building_area a = Some x \<and> x \<noteq> 0 \<longrightarrow> calculate_size_similarity a a = 1.0)"
  by (auto simp: calculate_size_similarity_def Let_def max.commute min.commute
           split: option.splits)

theorem size_symmetric_reflexive_witness:
  "calculate_size_similarity example_target example_candidate =
     calculate_size_similarity example_candidate example_target \<and>
   building_area example_target = Some 50000 \<and> (50000::real) \<noteq> 0 \<and>
   calculate_size_similarity example_target example_target = 1.0"
  using size_symmetric_reflexive [of example_target example_candidate]
  by (simp add: example_target_def blank_parcel_def)

section \<open>The assessed-value scorer\<close>

text \<open>
  C9, as the claim states it, fails where the larger of the two assessed values is 0:
  then one of the values is 0, the missing-data test \<^verbatim>\<open>not x\<close> already holds for
  it, and the scorer returns 0.5; the branch \<^verbatim>\<open>larger == 0\<close> is never reached.
\<close>

theorem value_zero_counterexample:
  "assessed_value (blank_parcel\<lparr>assessed_value := Some 0\<rparr>) = Some 0 \<and>
   max (0::real) 0 = 0 \<and>
   calculate_value_similarity SimilarityFactors_default
     (blank_parcel\<lparr>assessed_value := Some 0\<rparr>) (blank_parcel\<lparr>assessed_value := Some 0\<rparr>) \<noteq> 0"
  by (simp add: calculate_value_similarity_def)

text \<open>
  C9, amended: the assessed-value scorer returns 0.5 when either parcel's assessed
  value is missing or zero; when both are present and nonzero the larger one is not 0
  and the scorer returns 1.0 if the ratio smaller/larger is at least 1 - tolerance
  (default tolerance 0.3) and otherwise the larger of 0 and the ratio; the result is
  never negative.
\<close>

theorem value_similarity_cases:
  "(\<not> truthy_float (assessed_value t) \<or> \<not> truthy_float (assessed_value c)
      \<longrightarrow> calculate_value_similarity sf t c = 0.5) \<and>
   (\<forall>tv cv. assessed_value t = Some tv \<and> assessed_value c = Some cv \<and> tv \<noteq> 0 \<and> cv \<noteq> 0
      \<longrightarrow> max tv cv \<noteq> 0 \<and>
          calculate_value_similarity sf t c =
            (if min tv cv / max tv cv \<ge> 1 - value_tolerance_percent sf then 1
             else max 0 (min tv cv / max tv cv))) \<and>
   value_tolerance_percent SimilarityFactors_default = 0.3 \<and>
   0 \<le> calculate_value_similarity sf t c"
proof -
  have a: "\<not> truthy_float (assessed_value t) \<or> \<not> truthy_float (assessed_value c)
      \<longrightarrow> calculate_value_similarity sf t c = 0.5"
    by (cases "assessed_value t"; cases "assessed_value c")
       (auto simp: calculate_value_similarity_def)
  have b: "\<forall>tv cv. assessed_value t = Some tv \<and> assessed_value c = Some cv \<and> tv \<noteq> 0 \<and> cv \<noteq> 0
      \<longrightarrow> max tv cv \<noteq> 0 \<and>
          calculate_value_similarity sf t c =
            (if min tv cv / max tv cv \<ge> 1 - value_tolerance_percent sf then 1
             else max 0 (min tv cv / max tv cv))"
    by (auto simp: calculate_value_similarity_def Let_def max_def)
  have c: "value_tolerance_percent SimilarityFactors_default = 0.3"
    by (simp add: SimilarityFactors_default_def)
  have d: "0 \<le> calculate_value_similarity sf t c"
    by (cases "assessed_value t"; cases "assessed_value c")
       (auto simp: calculate_value_similarity_def Let_def)
  from a b c d show ?thesis by blast
qed


theorem value_similarity_cases_witness:
  "\<not> truthy_float (assessed_value blank_parcel) \<and>
   calculate_value_similarity SimilarityFactors_default blank_parcel example_candidate = 0.5 \<and>
   assessed_value example_target = Some 2000000 \<and>
   assessed_value example_candidate = Some 2100000 \<and>
   calculate_value_similarity SimilarityFactors_default example_target example_candidate = 1 \<and>
   calculate_value_similarity SimilarityFactors_default example_target
      (example_candidate\<lparr>assessed_value := Some 500000\<rparr>) = 0.25"
proof -
  have m: "\<not> truthy_float (assessed_value blank_parcel)"
    by (simp add: blank_parcel_def)
  have a: "assessed_value example_target = Some 2000000"
    "assessed_value example_candidate = Some 2100000"
    "assessed_value (example_candidate\<lparr>assessed_value := Some 500000\<rparr>) = Some 500000"
    by (simp_all add: example_target_def example_candidate_def blank_parcel_def)
  have tol: "value_tolerance_percent SimilarityFactors_default = 0.3"
    by (simp add: SimilarityFactors_default_def)
  have r1: "calculate_value_similarity SimilarityFactors_default blank_parcel example_candidate = 0.5"
    using value_similarity_cases [of blank_parcel example_candidate SimilarityFactors_default] m
    by blast
  have r2: "calculate_value_similarity SimilarityFactors_default example_target example_candidate = 1"
    using value_similarity_cases [of example_target example_candidate SimilarityFactors_default]
      a(1,2) by (simp add: tol)
  have r3: "calculate_value_similarity SimilarityFactors_default example_target
      (example_candidate\<lparr>assessed_value := Some 500000\<rparr>) = 0.25"
    using value_similarity_cases [of example_target
        "example_candidate\<lparr>assessed_value := Some 500000\<rparr>" SimilarityFactors_default]
      a(1) by (simp add: tol)
  from m a(1,2) r1 r2 r3 show ?thesis by simp
qed

section \<open>The age scorer\<close>

text \<open>
  C7, as the claim states it, fails for a year built of 0: the missing-data test
  \<^verbatim>\<open>not target.year_built\<close> holds for it, and the scorer returns 0.5 where the
  formula gives 0.75.
\<close>

theorem age_year_zero_counterexample:
  "year_built (blank_parcel\<lparr>year_built := Some 0\<rparr>) = Some 0 \<and>
   year_built (blank_parcel\<lparr>year_built := Some 5\<rparr>) = Some 5 \<and>
   \<bar>0 - 5\<bar> \<le> age_tolerance_years SimilarityFactors_default \<and>
   calculate_age_similarity SimilarityFactors_default
     (blank_parcel\<lparr>year_built := Some 0\<rparr>) (blank_parcel\<lparr>year_built := Some 5\<rparr>)
   \<noteq> Inr (1 - (real_of_int \<bar>0 - 5\<bar> / real_of_int (age_tolerance_years SimilarityFactors_default)) * 0.5)"
  by (simp add: calculate_age_similarity_def SimilarityFactors_default_def blank_parcel_def)


text \<open>
  C7, amended: for parcels that both have a nonzero year built, the age scorer with a
  positive configured tolerance tol returns 1.0 - (d/tol)*0.5 when the absolute year
  difference d is at most tol, and max(0, 0.5 - (d - tol)/(2*tol)) when d exceeds tol;
  at d = tol the score is exactly 0.5, and the two branches agree there.
\<close>

theorem age_similarity_formula:
  assumes "year_built t = Some ty" "year_built c = Some cy" "ty \<noteq> 0" "cy \<noteq> 0"
    and "0 < age_tolerance_years sf"
  shows "calculate_age_similarity sf t c =
           Inr (let d = real_of_int \<bar>ty - cy\<bar>; tol = real_of_int (age_tolerance_years sf) in
                if d \<le> tol then 1 - (d / tol) * 0.5
                else max 0 (0.5 - (d - tol) / (2 * tol))) \<and>
         (\<bar>ty - cy\<bar> = age_tolerance_years sf \<longrightarrow> calculate_age_similarity sf t c = Inr 0.5) \<and>
         (let tol = real_of_int (age_tolerance_years sf) in
            1 - (tol / tol) * 0.5 = max 0 (0.5 - (tol - tol) / (2 * tol)))"
  using assms
  by (auto simp: calculate_age_similarity_def int_truediv_def Let_def mult.commute)

theorem age_similarity_formula_witness:
  "calculate_age_similarity SimilarityFactors_default example_target example_candidate = Inr 0.75 \<and>
   calculate_age_similarity SimilarityFactors_default example_target
      (example_candidate\<lparr>year_built := Some 2010\<rparr>) = Inr 0.5 \<and>
   calculate_age_similarity SimilarityFactors_default example_target
      (example_candidate\<lparr>year_built := Some 2015\<rparr>) = Inr 0.25"
  using age_similarity_formula [of example_target 2000 example_candidate 2005 SimilarityFactors_default]
    age_similarity_formula [of example_target 2000 "example_candidate\<lparr>year_built := Some 2010\<rparr>" 2010 SimilarityFactors_default]
    age_similarity_formula [of example_target 2000 "example_candidate\<lparr>year_built := Some 2015\<rparr>" 2015 SimilarityFactors_default]
  by (simp add: example_target_def example_candidate_def blank_parcel_def SimilarityFactors_default_def)


section \<open>Ranges of the factor scorers\<close>

lemma location_range: "0 \<le> calculate_location_similarity t c \<and> calculate_location_similarity t c \<le> 1"
  by (simp add: calculate_location_similarity_def)

lemma zoning_range: "0 \<le> calculate_zoning_similarity t c \<and> calculate_zoning_similarity t c \<le> 1"
  by (simp add: calculate_zoning_similarity_def Let_def split: option.splits)

lemma ratio_score_range:
  fixes r tol :: real
  assumes "0 \<le> tol"
  shows "0 \<le> (if r \<ge> 1 - tol then 1 else max 0 r) \<and> (if r \<ge> 1 - tol then 1 else max 0 r) \<le> 1"
  using assms by auto

lemma value_range:
  assumes "0 \<le> value_tolerance_percent sf"
  shows "0 \<le> calculate_value_similarity sf t c \<and> calculate_value_similarity sf t c \<le> 1"
proof (cases "assessed_value t")
  case None then show ?thesis by (simp add: calculate_value_similarity_def)
next
  case (Some tv)
  show ?thesis
  proof (cases "assessed_value c")
    case None with Some show ?thesis by (simp add: calculate_value_similarity_def)
  next
    case (Some cv)
    with \<open>assessed_value t = Some tv\<close> ratio_score_range [OF assms, of "min tv cv / max tv cv"]
    show ?thesis
      by (auto simp: calculate_value_similarity_def Let_def split: if_splits)
  qed
qed

lemma sale_price_range:
  "0 \<le> calculate_sale_price_similarity t c \<and> calculate_sale_price_similarity t c \<le> 1"
proof (cases "sale_price t")
  case None then show ?thesis by (simp add: calculate_sale_price_similarity_def)
next
  case (Some tv)
  show ?thesis
  proof (cases "sale_price c")
    case None with Some show ?thesis by (simp add: calculate_sale_price_similarity_def)
  next
    case (Some cv)
    have "(0::real) \<le> 0.3" by simp
    from \<open>sale_price t = Some tv\<close> Some ratio_score_range [OF this, of "min tv cv / max tv cv"]
    show ?thesis
      by (auto simp: calculate_sale_price_similarity_def Let_def split: if_splits)
  qed
qed

lemma age_within_range:
  fixes d tol :: int
  assumes "0 < tol" "0 \<le> d" "d \<le> tol"
  shows "0 \<le> 1 - real_of_int d / real_of_int tol * 0.5 \<and>
         1 - real_of_int d / real_of_int tol * 0.5 \<le> 1"
proof -
  have "0 \<le> real_of_int d / real_of_int tol" using assms by simp
  moreover have "real_of_int d / real_of_int tol \<le> 1" using assms by simp
  ultimately show ?thesis by simp
qed

lemma age_beyond_range:
  fixes d tol :: int
  assumes "0 < tol" "\<not> d \<le> tol"
  shows "0 \<le> max 0 (0.5 - real_of_int (d - tol) / real_of_int (tol * 2)) \<and>
         max 0 (0.5 - real_of_int (d - tol) / real_of_int (tol * 2)) \<le> 1"
proof -
  have "0 \<le> real_of_int (d - tol) / real_of_int (tol * 2)"
    using assms by (intro divide_nonneg_pos) simp_all
  then show ?thesis by simp
qed

lemma age_range:
  assumes "0 < age_tolerance_years sf"
  shows "case calculate_age_similarity sf t c of Inl e \<Rightarrow> False | Inr a \<Rightarrow> 0 \<le> a \<and> a \<le> 1"
proof (cases "year_built t")
  case None then show ?thesis by (simp add: calculate_age_similarity_def)
next
  case (Some ty)
  show ?thesis
  proof (cases "year_built c")
    case None with Some show ?thesis by (simp add: calculate_age_similarity_def)
  next
    case (Some cy)
    note ys = \<open>year_built t = Some ty\<close> Some
    show ?thesis
    proof (cases "ty = 0 \<or> cy = 0")
      case True with ys show ?thesis by (auto simp: calculate_age_similarity_def)
    next
      case nz: False
      show ?thesis
      proof (cases "\<bar>ty - cy\<bar> \<le> age_tolerance_years sf")
        case True
        have eq: "calculate_age_similarity sf t c =
            Inr (1 - real_of_int \<bar>ty - cy\<bar> / real_of_int (age_tolerance_years sf) * 0.5)"
          using ys nz True assms
          by (simp add: calculate_age_similarity_def int_truediv_def Let_def
                   del: of_int_abs of_int_diff)
        show ?thesis
          unfolding eq using age_within_range [OF assms _ True] by simp
      next
        case False
        have eq: "calculate_age_similarity sf t c =
            Inr (max 0 (0.5 - real_of_int (\<bar>ty - cy\<bar> - age_tolerance_years sf)
                           / real_of_int (age_tolerance_years sf * 2)))"
          using ys nz False assms
          by (simp add: calculate_age_similarity_def int_truediv_def Let_def
                   del: of_int_abs of_int_diff of_int_mult)
        show ?thesis
          unfolding eq using age_beyond_range [OF assms False] by simp
      qed
    qed
  qed
qed

lemma size_range:
  assumes "\<forall>x. building_area t = Some x \<longrightarrow> 0 \<le> x" "\<forall>x. building_area c = Some x \<longrightarrow> 0 \<le> x"
  shows "0 \<le> calculate_size_similarity t c \<and> calculate_size_similarity t c \<le> 1"
proof (cases "building_area t")
  case None then show ?thesis by (simp add: calculate_size_similarity_def)
next
  case (Some ta)
  show ?thesis
  proof (cases "building_area c")
    case None with Some show ?thesis by (simp add: calculate_size_similarity_def)
  next
    case (Some ca)
    have pos: "0 \<le> ta" "0 \<le> ca" using assms \<open>building_area t = Some ta\<close> Some by auto
    have "0 \<le> min ta ca / max ta ca" using pos by simp
    moreover have "ta \<noteq> 0 \<Longrightarrow> ca \<noteq> 0 \<Longrightarrow> min ta ca / max ta ca \<le> 1" using pos
      by (simp add: min_def max_def)
    ultimately show ?thesis using \<open>building_area t = Some ta\<close> Some
      by (auto simp: calculate_size_similarity_def Let_def)
  qed
qed


text \<open>
  C4 asks every factor scorer to stay in the closed interval from 0 to 1, as the
  docstrings of the scorers say. The size scorer leaves the interval on a negative
  building area, which the type of the field admits: it returns -1 for the areas -100
  and 50, 2 for the areas -100 and -50, and -1/100 for a target of area -100 against a
  stored candidate of area 5000. The other five scorers stay in the interval
  (lemmas above), the size scorer does on non-negative areas.
\<close>

theorem size_similarity_out_of_range:
  "calculate_size_similarity (blank_parcel\<lparr>building_area := Some (- 100)\<rparr>)
      (blank_parcel\<lparr>building_area := Some 50\<rparr>) = - 1 \<and>
   calculate_size_similarity (blank_parcel\<lparr>building_area := Some (- 100)\<rparr>)
      (blank_parcel\<lparr>building_area := Some (- 50)\<rparr>) = 2 \<and>
   calculate_size_similarity (blank_parcel\<lparr>building_area := Some (- 100)\<rparr>)
      (blank_parcel\<lparr>building_area := Some 5000\<rparr>) = - (1 / 100)"
  by (simp add: calculate_size_similarity_def blank_parcel_def)


section \<open>The confidence estimator\<close>

lemma count_fields_eq:
  "count_fields bs (total_fields, completed_fields) =
     (total_fields + length bs, completed_fields + length (filter (\<lambda>b. b) bs))"
  by (induction bs arbitrary: total_fields completed_fields) auto

lemma completeness_eq:
  "calculate_data_completeness p =
     real (length (filter (\<lambda>b. b) (essential_fields p @ optional_fields p))) / 11"
proof -
  have "length (essential_fields p) = 6" "length (optional_fields p) = 5"
    by (simp_all add: essential_fields_def optional_fields_def)
  then show ?thesis
    by (simp add: calculate_data_completeness_def count_fields_eq)
qed









section \<open>The weighted aggregator\<close>

lemma age_not_error:
  assumes "age_tolerance_years sf \<noteq> 0"
  shows "calculate_age_similarity sf t c \<noteq> Inl e"
  using assms
  by (auto simp: calculate_age_similarity_def int_truediv_def Let_def split: option.splits)

lemma age_total:
  assumes "age_tolerance_years sf \<noteq> 0"
  shows "\<exists>a. calculate_age_similarity sf t c = Inr a"
  using age_not_error [OF assms, of t c] by (cases "calculate_age_similarity sf t c") auto


text \<open>
  C3: the overall similarity score computed by \<open>calculate_similarity\<close> is the sum over
  the six factors (location, size, age, zoning, assessed value, sale price) of the
  factor's score times its weight in \<open>SimilarityFactors\<close>. The function returns
  whenever the age tolerance is not 0.
\<close>

theorem similarity_weighted_sum:
  assumes "age_tolerance_years sf \<noteq> 0"
  shows "\<exists>age_score factor_scores confidence.
           calculate_age_similarity sf t c = Inr age_score \<and>
           calculate_similarity sf t c =
             Inr (calculate_location_similarity t c * location_weight sf +
                  calculate_size_similarity t c * size_weight sf +
                  age_score * age_weight sf +
                  calculate_zoning_similarity t c * zoning_weight sf +
                  calculate_value_similarity sf t c * value_weight sf +
                  calculate_sale_price_similarity t c * sale_price_weight sf,
                  factor_scores, confidence)"
proof -
  from age_total [OF assms] obtain a where "calculate_age_similarity sf t c = Inr a" by blast
  then show ?thesis by (simp add: calculate_similarity_def Let_def)
qed

theorem similarity_weighted_sum_witness:
  "age_tolerance_years SimilarityFactors_default \<noteq> 0 \<and>
   (\<exists>factor_scores confidence.
      calculate_similarity SimilarityFactors_default example_target example_candidate =
        Inr (1 * 0.10 + (50000 / 55000) * 0.25 + 0.75 * 0.05 + 1 * 0.05 + 1 * 0.20 + 0.5 * 0.35,
             factor_scores, confidence))"
proof -
  have h: "age_tolerance_years SimilarityFactors_default \<noteq> 0"
    by (simp add: SimilarityFactors_default_def)
  have a: "calculate_age_similarity SimilarityFactors_default example_target example_candidate = Inr 0.75"
    by (simp add: calculate_age_similarity_def int_truediv_def example_target_def example_candidate_def blank_parcel_def SimilarityFactors_default_def)
  have l: "calculate_location_similarity example_target example_candidate = 1"
    by code_simp
  have s: "calculate_size_similarity example_target example_candidate = 50000 / 55000"
    by (simp add: calculate_size_similarity_def example_target_def example_candidate_def blank_parcel_def)
  have z: "calculate_zoning_similarity example_target example_candidate = 1"
    by (simp add: calculate_zoning_similarity_def example_target_def example_candidate_def blank_parcel_def truthy_str_def)
  have v: "calculate_value_similarity SimilarityFactors_default example_target example_candidate = 1"
    by (simp add: calculate_value_similarity_def example_target_def example_candidate_def blank_parcel_def SimilarityFactors_default_def)
  have p: "calculate_sale_price_similarity example_target example_candidate = 0.5"
    by (simp add: calculate_sale_price_similarity_def example_target_def example_candidate_def blank_parcel_def)
  have w: "location_weight SimilarityFactors_default = 0.10" "size_weight SimilarityFactors_default = 0.25"
    "age_weight SimilarityFactors_default = 0.05" "zoning_weight SimilarityFactors_default = 0.05"
    "value_weight SimilarityFactors_default = 0.20" "sale_price_weight SimilarityFactors_default = 0.35"
    by (simp_all add: SimilarityFactors_default_def)
  from similarity_weighted_sum [OF h, of example_target example_candidate]
  show ?thesis unfolding a l s z v p w using h by auto
qed

section \<open>The scoring loops\<close>

lemma similarity_total:
  assumes "age_tolerance_years sf \<noteq> 0"
  shows "\<exists>r. calculate_similarity sf t c = Inr r"
proof -
  from age_total [OF assms] obtain a where "calculate_age_similarity sf t c = Inr a" by blast
  then show ?thesis by (simp add: calculate_similarity_def Let_def)
qed

lemma detailed_total:
  assumes "age_tolerance_years sf \<noteq> 0"
  shows "\<exists>r. calculate_detailed_similarity_factors sf t c = Inr r"
proof -
  from age_total [OF assms] obtain a where "calculate_age_similarity sf t c = Inr a" by blast
  then show ?thesis by (simp add: calculate_detailed_similarity_factors_def Let_def)
qed

lemma traditional_loop_acc:
  "traditional_loop sf t cs acc =
     (case traditional_loop sf t cs [] of Inl e \<Rightarrow> Inl e | Inr bs \<Rightarrow> Inr (acc @ bs))"
proof (induction cs arbitrary: acc)
  case Nil
  show ?case by simp
next
  case (Cons c cs)
  show ?case
  proof (cases "id c = id t")
    case True
    then show ?thesis using Cons.IH [of acc] by simp
  next
    case False
    show ?thesis
    proof (cases "calculate_similarity sf t c")
      case (Inl e)
      with False show ?thesis by simp
    next
      case (Inr r)
      obtain s f k where r: "r = (s, f, k)" by (cases r)
      show ?thesis
      proof (cases "s > 0.3")
        case True
        let ?x = "\<lparr> property = c, similarity_score = s,
                    distance_miles = Some (calculate_distance t c),
                    similarity_factors = f, confidence_score = k \<rparr>"
        have "traditional_loop sf t (c # cs) acc = traditional_loop sf t cs (acc @ [?x])"
          using False Inr r True by (simp add: Let_def)
        moreover have "traditional_loop sf t (c # cs) [] = traditional_loop sf t cs [?x]"
          using False Inr r True by (simp add: Let_def)
        ultimately show ?thesis
          using Cons.IH [of "acc @ [?x]"] Cons.IH [of "[?x]"]
          by (simp split: sum.splits)
      next
        case F: False
        then show ?thesis using False Inr r Cons.IH [of acc] by simp
      qed
    qed
  qed
qed

lemma traditional_loop_append:
  "traditional_loop sf t (xs @ ys) acc =
     (case traditional_loop sf t xs acc of Inl e \<Rightarrow> Inl e
      | Inr acc' \<Rightarrow> traditional_loop sf t ys acc')"
  by (induction xs arbitrary: acc) (auto simp: Let_def split: sum.splits)

lemma traditional_loop_total:
  assumes "age_tolerance_years sf \<noteq> 0"
  shows "\<exists>rs. traditional_loop sf t cs acc = Inr rs"
proof (induction cs arbitrary: acc)
  case Nil show ?case by simp
next
  case (Cons c cs)
  from similarity_total [OF assms, of t c]
  obtain s f k where "calculate_similarity sf t c = Inr (s, f, k)"
    by (metis prod_cases3)
  then show ?case using Cons.IH by (simp add: Let_def)
qed

lemma traditional_loop_threshold:
  assumes "traditional_loop sf t cs acc = Inr rs" "\<forall>x \<in> set acc. 0.3 < similarity_score x"
  shows "\<forall>x \<in> set rs. 0.3 < similarity_score x"
  using assms
  by (induction cs arbitrary: acc) (auto simp: Let_def split: if_splits sum.splits)

lemma process_scores_threshold:
  assumes "process_scores sf t batch es acc = (acc', err)"
    "\<forall>x \<in> set acc. 0.3 < similarity_score x"
  shows "\<forall>x \<in> set acc'. 0.3 < similarity_score x"
  using assms
  by (induction sf t batch es acc rule: process_scores.induct)
     (auto simp: Let_def split: if_splits sum.splits option.splits)

lemma fallback_batch_total:
  assumes "age_tolerance_years sf \<noteq> 0"
  shows "\<exists>rs. fallback_batch sf t batch acc = Inr rs"
  using traditional_loop_total [OF assms, of t batch "[]"]
  by (auto simp: fallback_batch_def traditional_score_candidates_def)

lemma fallback_batch_threshold:
  assumes "fallback_batch sf t batch acc = Inr rs" "\<forall>x \<in> set acc. 0.3 < similarity_score x"
  shows "\<forall>x \<in> set rs. 0.3 < similarity_score x"
proof -
  from assms(1) obtain bs where bs: "traditional_loop sf t batch [] = Inr bs" "rs = acc @ bs"
    by (auto simp: fallback_batch_def traditional_score_candidates_def split: sum.splits)
  from traditional_loop_threshold [OF bs(1)] have "\<forall>x \<in> set bs. 0.3 < similarity_score x"
    by simp
  with assms(2) bs(2) show ?thesis by auto
qed

lemma score_batch_total:
  assumes "age_tolerance_years sf \<noteq> 0"
  shows "\<exists>rs. score_batch sf t reply batch acc = Inr rs"
proof (cases reply)
  case (Scores es)
  obtain acc' err where p: "process_scores sf t batch es acc = (acc', err)"
    by (cases "process_scores sf t batch es acc")
  show ?thesis
    using Scores p fallback_batch_total [OF assms, of t batch acc']
    by (cases err) (auto simp: score_batch_def)
qed (use fallback_batch_total [OF assms] in \<open>auto simp: score_batch_def\<close>)

lemma score_batch_threshold:
  assumes "score_batch sf t reply batch acc = Inr rs" "\<forall>x \<in> set acc. 0.3 < similarity_score x"
  shows "\<forall>x \<in> set rs. 0.3 < similarity_score x"
proof (cases reply)
  case CallRaises
  with assms show ?thesis by (auto simp: score_batch_def dest: fallback_batch_threshold)
next
  case JSONDecodeError
  with assms show ?thesis by (auto simp: score_batch_def dest: fallback_batch_threshold)
next
  case (Scores es)
  obtain acc' err where p: "process_scores sf t batch es acc = (acc', err)"
    by (cases "process_scores sf t batch es acc")
  from process_scores_threshold [OF p assms(2)]
  have a: "\<forall>x \<in> set acc'. 0.3 < similarity_score x" .
  show ?thesis
  proof (cases err)
    case None
    with Scores p assms(1) a show ?thesis by (simp add: score_batch_def)
  next
    case (Some e)
    with Scores p assms(1) have "fallback_batch sf t batch acc' = Inr rs"
      by (simp add: score_batch_def)
    from fallback_batch_threshold [OF this a] show ?thesis .
  qed
qed

lemma ai_loop_total:
  assumes "age_tolerance_years sf \<noteq> 0"
  shows "\<exists>rs. ai_loop sf t ai n rest acc = Inr rs"
  using assms
proof (induction sf t ai n rest acc rule: ai_loop.induct)
  case (1 factors target_property ai n rest scored_properties)
  show ?case
  proof (cases "rest = []")
    case True
    then show ?thesis by (subst ai_loop.simps) simp
  next
    case False
    from score_batch_total [of factors] "1.prems"
    obtain scored where s: "score_batch factors target_property (ai n) (take batch_size rest)
        scored_properties = Inr scored" by blast
    from "1.IH" [OF False s "1.prems"] False s show ?thesis
      by (subst ai_loop.simps) simp
  qed
qed

lemma ai_loop_threshold:
  assumes "ai_loop sf t ai n rest acc = Inr rs" "\<forall>x \<in> set acc. 0.3 < similarity_score x"
  shows "\<forall>x \<in> set rs. 0.3 < similarity_score x"
  using assms
proof (induction sf t ai n rest acc rule: ai_loop.induct)
  case (1 factors target_property ai n rest scored_properties)
  show ?case
  proof (cases "rest = []")
    case True
    with 1(2,3) show ?thesis by (subst (asm) ai_loop.simps) simp
  next
    case False
    from 1(2) False obtain scored where
      s: "score_batch factors target_property (ai n) (take batch_size rest) scored_properties = Inr scored"
      and r: "ai_loop factors target_property ai (n + 1) (drop batch_size rest) scored = Inr rs"
      by (subst (asm) ai_loop.simps) (auto split: sum.splits)
    from score_batch_threshold [OF s 1(3)] have "\<forall>x \<in> set scored. 0.3 < similarity_score x" .
    from "1.IH" [OF False s r this] show ?thesis .
  qed
qed

lemma sorted_descending:
  "sorted_wrt (\<lambda>a b. a \<ge> b) (map similarity_score (sort_descending xs))"
proof -
  have "sorted (map (\<lambda>x. - similarity_score x) (sort_descending xs))"
    unfolding sort_descending_def by (rule sorted_sort_key)
  then show ?thesis by (simp add: sorted_wrt_map)
qed

lemma sorted_wrt_take_list: "sorted_wrt R xs \<Longrightarrow> sorted_wrt R (take n xs)"
proof (induction xs arbitrary: n)
  case Nil show ?case by simp
next
  case (Cons x xs)
  show ?case
  proof (cases n)
    case 0 then show ?thesis by simp
  next
    case (Suc m)
    with Cons show ?thesis by (auto dest: in_set_takeD)
  qed
qed

lemma slice_to_sorted:
  "sorted_wrt R (map f xs) \<Longrightarrow> sorted_wrt R (map f (slice_to xs n))"
  by (simp add: slice_to_def take_map [symmetric] sorted_wrt_take_list)

lemma slice_to_set: "set (slice_to xs n) \<subseteq> set xs"
  by (auto simp: slice_to_def dest: in_set_takeD)

lemma slice_to_length: "0 \<le> n \<Longrightarrow> int (length (slice_to xs n)) \<le> n"
  by (simp add: slice_to_def)

text \<open>
  C1: for every target parcel and candidate set, and every answer of the scoring
  service, the list returned by \<open>find_comparables\<close> holds no comparable whose
  similarity score is at most 0.3, is sorted non-increasing by similarity score, and has
  length at most \<open>max_results\<close>, for a \<open>max_results\<close> that is not negative (the
  default is 10). The call returns whenever the age tolerance is not 0.
\<close>

theorem find_comparables_result:
  assumes "0 \<le> max_results"
  shows "(age_tolerance_years (agent_similarity_factors self) \<noteq> 0 \<longrightarrow>
            (\<exists>results. find_comparables self ai target candidates max_results = Inr results)) \<and>
         (\<forall>results. find_comparables self ai target candidates max_results = Inr results \<longrightarrow>
            (\<forall>x \<in> set results. \<not> similarity_score x \<le> 0.3) \<and>
            sorted_wrt (\<lambda>a b. a \<ge> b) (map similarity_score results) \<and>
            int (length results) \<le> max_results)"
proof (intro conjI impI allI)
  assume tol: "age_tolerance_years (agent_similarity_factors self) \<noteq> 0"
  from ai_loop_total [OF tol, of target ai 0 candidates "[]"]
    traditional_loop_total [OF tol, of target candidates "[]"]
  show "\<exists>results. find_comparables self ai target candidates max_results = Inr results"
    by (auto simp: find_comparables_def ai_score_candidates_def traditional_score_candidates_def)
next
  fix results
  assume r: "find_comparables self ai target candidates max_results = Inr results"
  have "\<exists>scored. results = slice_to (sort_descending scored) max_results \<and>
          (\<forall>x \<in> set scored. 0.3 < similarity_score x)"
  proof (cases "candidates = []")
    case True
    with r have "results = slice_to (sort_descending []) max_results"
      by (simp add: find_comparables_def slice_to_def sort_descending_def)
    then show ?thesis by (intro exI [of _ "[]"]) simp
  next
    case False
    with r obtain scored where
      s: "(if truthy_str (api_key self)
           then ai_score_candidates (agent_similarity_factors self) target ai candidates
           else traditional_score_candidates (agent_similarity_factors self) target candidates)
          = Inr scored"
      and e: "results = slice_to (sort_descending scored) max_results"
      by (auto simp: find_comparables_def split: sum.splits)
    have "\<forall>x \<in> set scored. 0.3 < similarity_score x"
    proof (cases "truthy_str (api_key self)")
      case True
      with s have "ai_loop (agent_similarity_factors self) target ai 0 candidates [] = Inr scored"
        by (simp add: ai_score_candidates_def)
      from ai_loop_threshold [OF this] show ?thesis by simp
    next
      case False
      with s have "traditional_loop (agent_similarity_factors self) target candidates [] = Inr scored"
        by (simp add: traditional_score_candidates_def)
      from traditional_loop_threshold [OF this] show ?thesis by simp
    qed
    with e show ?thesis by blast
  qed
  then obtain scored where e: "results = slice_to (sort_descending scored) max_results"
    and th: "\<forall>x \<in> set scored. 0.3 < similarity_score x" by blast
  have "set results \<subseteq> set scored"
    unfolding e using slice_to_set [of "sort_descending scored" max_results]
    by (simp add: sort_descending_def)
  with th show "\<forall>x \<in> set results. \<not> similarity_score x \<le> 0.3" by fastforce
  show "sorted_wrt (\<lambda>a b. a \<ge> b) (map similarity_score results)"
    unfolding e by (rule slice_to_sorted) (rule sorted_descending)
  show "int (length results) \<le> max_results"
    unfolding e by (rule slice_to_length) (rule assms)
qed

section \<open>The example parcels, evaluated\<close>

lemmas example_defs = example_target_def example_candidate_def example_candidate_large_def
  blank_parcel_def SimilarityFactors_default_def

lemma example_location:
  "calculate_location_similarity example_target example_candidate = 1"
  "calculate_location_similarity example_target example_candidate_large = 1"
  by code_simp+

lemma example_city:
  "lower (city example_target) = lower (city example_candidate)"
  "lower (city example_target) = lower (city example_candidate_large)"
  by code_simp+

lemma example_distance:
  "calculate_distance example_target example_candidate = 5"
  "calculate_distance example_target example_candidate_large = 5"
  unfolding calculate_distance_def example_city
  by (simp_all add: example_defs)

lemma example_age:
  "calculate_age_similarity SimilarityFactors_default example_target example_candidate = Inr 0.75"
  "calculate_age_similarity SimilarityFactors_default example_target example_candidate_large = Inr 0.75"
  by (simp_all add: calculate_age_similarity_def int_truediv_def example_defs)

lemma example_confidence:
  "calculate_confidence_score example_target example_candidate = 7 / 11"
  "calculate_confidence_score example_target example_candidate_large = 7 / 11"
  by (simp_all add: calculate_confidence_score_def completeness_eq essential_fields_def
        optional_fields_def or_default_def truthy_str_def example_defs)

lemma example_similarity:
  "calculate_similarity SimilarityFactors_default example_target example_candidate =
     Inr (139 / 176,
          [(''location'', 1), (''size'', 10 / 11), (''age'', 0.75), (''zoning'', 1),
           (''value'', 1), (''sale_price'', 0.5)], 7 / 11)"
  "calculate_similarity SimilarityFactors_default example_target example_candidate_large =
     Inr (11 / 16,
          [(''location'', 1), (''size'', 0.5), (''age'', 0.75), (''zoning'', 1),
           (''value'', 1), (''sale_price'', 0.5)], 7 / 11)"
  unfolding calculate_similarity_def example_location example_age example_confidence
  by (simp_all add: calculate_size_similarity_def calculate_zoning_similarity_def
        calculate_value_similarity_def calculate_sale_price_similarity_def truthy_str_def
        Let_def example_defs)

lemma example_detailed:
  "calculate_detailed_similarity_factors SimilarityFactors_default example_target example_candidate =
     Inr [(''location'', 1), (''size'', 10 / 11), (''age'', 0.75), (''zoning'', 1), (''value'', 1)]"
  unfolding calculate_detailed_similarity_factors_def example_location example_age
  by (simp add: calculate_size_similarity_def calculate_zoning_similarity_def
        calculate_value_similarity_def truthy_str_def Let_def example_defs)

lemma example_ids:
  "id example_target = ''T1''" "id example_candidate = ''C1''" "id example_candidate_large = ''C2''"
  by (simp_all add: example_defs)

lemma example_traditional:
  "traditional_score_candidates SimilarityFactors_default example_target
     [example_candidate_large, example_target, example_candidate] =
   Inr [example_scored_large, example_scored]"
  by (simp add: traditional_score_candidates_def example_ids example_similarity example_distance
        example_scored_def example_scored_large_def)

lemma example_traditional_two_batches:
  "traditional_score_candidates SimilarityFactors_default example_target
     [example_candidate_large, example_target, example_candidate, example_candidate_large,
      example_candidate, example_candidate, example_candidate_large] =
   Inr [example_scored_large, example_scored, example_scored_large, example_scored,
        example_scored, example_scored_large]"
  by (simp add: traditional_score_candidates_def example_ids example_similarity example_distance
        example_scored_def example_scored_large_def)

lemma example_scores:
  "similarity_score example_scored = 139 / 176" "similarity_score example_scored_large = 11 / 16"
  by (simp_all add: example_scored_def example_scored_large_def)

theorem find_comparables_result_witness:
  "(0::int) \<le> 10 \<and>
   find_comparables (init_agent []) (\<lambda>n. CallRaises) example_target
       [example_candidate_large, example_target, example_candidate] 10 =
     Inr [example_scored, example_scored_large] \<and>
   0.3 < similarity_score example_scored \<and> 0.3 < similarity_score example_scored_large \<and>
   similarity_score example_scored \<ge> similarity_score example_scored_large \<and>
   int (length [example_scored, example_scored_large]) \<le> 10"
proof -
  have h: "(0::int) \<le> 10" by simp
  have ev: "find_comparables (init_agent []) (\<lambda>n. CallRaises) example_target
       [example_candidate_large, example_target, example_candidate] 10 =
     Inr [example_scored, example_scored_large]"
    by (simp add: find_comparables_def init_agent_def truthy_str_def example_traditional
          sort_descending_def slice_to_def example_scores)
  from find_comparables_result [OF h, of "init_agent []" "\<lambda>n. CallRaises" example_target
      "[example_candidate_large, example_target, example_candidate]"] ev
  have "(\<forall>x \<in> set [example_scored, example_scored_large]. \<not> similarity_score x \<le> 0.3) \<and>
        sorted_wrt (\<lambda>a b. a \<ge> b) (map similarity_score [example_scored, example_scored_large]) \<and>
        int (length [example_scored, example_scored_large]) \<le> 10"
    by blast
  with h ev show ?thesis by simp
qed

section \<open>Fallback to the deterministic scorer\<close>

lemma fallback_batch_eq:
  "fallback_batch sf t batch acc = traditional_loop sf t batch acc"
  unfolding fallback_batch_def traditional_score_candidates_def
  by (subst (2) traditional_loop_acc) simp

lemma ai_loop_all_fail:
  assumes "\<forall>n. ai n = CallRaises \<or> ai n = JSONDecodeError"
  shows "ai_loop sf t ai n rest acc = traditional_loop sf t rest acc"
  using assms
proof (induction sf t ai n rest acc rule: ai_loop.induct)
  case (1 factors target_property ai n rest scored_properties)
  show ?case
  proof (cases "rest = []")
    case True
    then show ?thesis by (subst ai_loop.simps) simp
  next
    case False
    have b: "score_batch factors target_property (ai n) (take batch_size rest) scored_properties =
        traditional_loop factors target_property (take batch_size rest) scored_properties"
      using "1.prems" [rule_format, of n] by (auto simp: score_batch_def fallback_batch_eq)
    have split: "traditional_loop factors target_property rest scored_properties =
        (case traditional_loop factors target_property (take batch_size rest) scored_properties of
           Inl e \<Rightarrow> Inl e
         | Inr scored \<Rightarrow> traditional_loop factors target_property (drop batch_size rest) scored)"
      using traditional_loop_append [of factors target_property "take batch_size rest"
          "drop batch_size rest" scored_properties] by simp
    show ?thesis
    proof (cases "traditional_loop factors target_property (take batch_size rest) scored_properties")
      case (Inl e)
      with b split False show ?thesis by (subst ai_loop.simps) simp
    next
      case (Inr scored)
      with b have s: "score_batch factors target_property (ai n) (take batch_size rest)
          scored_properties = Inr scored" by simp
      from "1.IH" [OF False s "1.prems"] Inr split False s show ?thesis
        by (subst ai_loop.simps) simp
    qed
  qed
qed

text \<open>
  C2: if every AI-scoring call fails (the call raises, or the reply is not JSON), then
  \<open>find_comparables\<close> produces, for the same target and candidates, the result of the
  deterministic path: \<open>traditional_score_candidates\<close> applied to all candidates, then
  sorted and truncated; this is also what the agent without an API key returns.
\<close>

theorem ai_failure_fallback:
  assumes "\<forall>n. ai n = CallRaises \<or> ai n = JSONDecodeError"
  shows "find_comparables self ai target candidates max_results =
           (case traditional_score_candidates (agent_similarity_factors self) target candidates of
              Inl e \<Rightarrow> Inl e
            | Inr scored \<Rightarrow> Inr (slice_to (sort_descending scored) max_results)) \<and>
         find_comparables self ai target candidates max_results =
           find_comparables (self\<lparr>api_key := []\<rparr>) ai' target candidates max_results"
proof -
  have "ai_score_candidates (agent_similarity_factors self) target ai candidates =
        traditional_score_candidates (agent_similarity_factors self) target candidates"
    unfolding ai_score_candidates_def traditional_score_candidates_def
    by (rule ai_loop_all_fail [OF assms])
  then show ?thesis
    by (simp add: find_comparables_def truthy_str_def traditional_score_candidates_def
          slice_to_def sort_descending_def)
qed

theorem ai_failure_fallback_witness:
  "find_comparables (init_agent ''sk-test'')
       (\<lambda>n. if n = 0 then CallRaises else JSONDecodeError) example_target
       [example_candidate_large, example_target, example_candidate, example_candidate_large,
        example_candidate, example_candidate, example_candidate_large] 10 =
     Inr [example_scored, example_scored, example_scored,
          example_scored_large, example_scored_large, example_scored_large] \<and>
   find_comparables (init_agent ''sk-test'')
       (\<lambda>n. if n = 0 then CallRaises else JSONDecodeError) example_target
       [example_candidate_large, example_target, example_candidate, example_candidate_large,
        example_candidate, example_candidate, example_candidate_large] 10 =
   find_comparables ((init_agent ''sk-test'')\<lparr>api_key := []\<rparr>) (\<lambda>n. Scores []) example_target
       [example_candidate_large, example_target, example_candidate, example_candidate_large,
        example_candidate, example_candidate, example_candidate_large] 10"
proof -
  have h: "\<forall>n. (if n = (0::nat) then CallRaises else JSONDecodeError) = CallRaises \<or>
               (if n = (0::nat) then CallRaises else JSONDecodeError) = JSONDecodeError"
    by simp
  have sf: "agent_similarity_factors (init_agent ''sk-test'') = SimilarityFactors_default"
    by (simp add: init_agent_def)
  note t = ai_failure_fallback [OF h, of "init_agent ''sk-test''" example_target
      "[example_candidate_large, example_target, example_candidate, example_candidate_large,
        example_candidate, example_candidate, example_candidate_large]" 10 "\<lambda>n. Scores []"]
  have "find_comparables (init_agent ''sk-test'')
       (\<lambda>n. if n = 0 then CallRaises else JSONDecodeError) example_target
       [example_candidate_large, example_target, example_candidate, example_candidate_large,
        example_candidate, example_candidate, example_candidate_large] 10 =
     Inr [example_scored, example_scored, example_scored,
          example_scored_large, example_scored_large, example_scored_large]"
    using t unfolding sf example_traditional_two_batches
    by (simp add: sort_descending_def slice_to_def example_scores)
  moreover from t have "find_comparables (init_agent ''sk-test'')
       (\<lambda>n. if n = 0 then CallRaises else JSONDecodeError) example_target
       [example_candidate_large, example_target, example_candidate, example_candidate_large,
        example_candidate, example_candidate, example_candidate_large] 10 =
   find_comparables ((init_agent ''sk-test'')\<lparr>api_key := []\<rparr>) (\<lambda>n. Scores []) example_target
       [example_candidate_large, example_target, example_candidate, example_candidate_large,
        example_candidate, example_candidate, example_candidate_large] 10"
    by (rule conjunct2)
  ultimately show ?thesis by (rule conjI)
qed

section \<open>Keys of the per-factor breakdown\<close>

lemma detailed_keys:
  assumes "calculate_detailed_similarity_factors sf t c = Inr f"
  shows "map fst f = [''location'', ''size'', ''age'', ''zoning'', ''value'']"
  using assms
  by (auto simp: calculate_detailed_similarity_factors_def Let_def split: sum.splits)

lemma similarity_keys:
  assumes "calculate_similarity sf t c = Inr (s, f, k)"
  shows "map fst f = [''location'', ''size'', ''age'', ''zoning'', ''value'', ''sale_price'']"
  using assms
  by (auto simp: calculate_similarity_def Let_def split: sum.splits)

lemma process_scores_keys:
  assumes "process_scores sf t batch es acc = (acc', err)" "x \<in> set acc'"
  shows "x \<in> set acc \<or>
         map fst (similarity_factors x) = [''location'', ''size'', ''age'', ''zoning'', ''value'']"
  using assms
proof (induction sf t batch es acc rule: process_scores.induct)
  case (1 factors target_property batch scored_properties)
  then show ?case by simp
next
  case (2 factors target_property batch ai_scores scored_properties)
  then show ?case by simp
next
  case (3 factors target_property batch candidate_id score confidence ai_scores scored_properties)
  show ?case
  proof (cases "find_candidate batch candidate_id")
    case None
    with 3 show ?thesis by simp
  next
    case (Some candidate)
    show ?thesis
    proof (cases "score > 0.3")
      case False
      with Some 3 show ?thesis by simp
    next
      case True
      show ?thesis
      proof (cases "calculate_detailed_similarity_factors factors target_property candidate")
        case (Inl e)
        with Some True "3.prems" show ?thesis by simp
      next
        case (Inr f)
        let ?x = "\<lparr> property = candidate, similarity_score = score,
                     distance_miles = Some (calculate_distance target_property candidate),
                     similarity_factors = f, confidence_score = confidence \<rparr>"
        from "3.prems" Some True Inr
        have p: "process_scores factors target_property batch ai_scores
                   (scored_properties @ [?x]) = (acc', err)"
          by (simp add: Let_def)
        from "3.IH"(2) [OF Some True refl Inr refl p "3.prems"(2)]
        have "x \<in> set (scored_properties @ [?x]) \<or>
              map fst (similarity_factors x) = [''location'', ''size'', ''age'', ''zoning'', ''value'']" .
        with detailed_keys [OF Inr] show ?thesis by auto
      qed
    qed
  qed
qed

lemma traditional_loop_keys:
  assumes "traditional_loop sf t cs acc = Inr rs" "x \<in> set rs"
  shows "x \<in> set acc \<or>
         map fst (similarity_factors x) =
           [''location'', ''size'', ''age'', ''zoning'', ''value'', ''sale_price'']"
  using assms
proof (induction cs arbitrary: acc)
  case Nil
  then show ?case by simp
next
  case (Cons c cs)
  show ?case
  proof (cases "id c = id t")
    case True
    with Cons show ?thesis by simp
  next
    case False
    from Cons.prems(1) False obtain s f k where
      r: "calculate_similarity sf t c = Inr (s, f, k)"
      by (auto split: sum.splits)
    show ?thesis
    proof (cases "s > 0.3")
      case F: False
      with False r Cons show ?thesis by simp
    next
      case True
      let ?x = "\<lparr> property = c, similarity_score = s,
                   distance_miles = Some (calculate_distance t c),
                   similarity_factors = f, confidence_score = k \<rparr>"
      from Cons.prems(1) False r True
      have "traditional_loop sf t cs (acc @ [?x]) = Inr rs" by (simp add: Let_def)
      from Cons.IH [OF this Cons.prems(2)] similarity_keys [OF r] show ?thesis by auto
    qed
  qed
qed

text \<open>
  C10: every comparable built by the AI scoring loop has a breakdown whose key set is
  exactly location, size, age, zoning, value, with no sale_price entry, whereas every
  comparable built by the deterministic scorer has these five keys and sale_price.
\<close>

theorem breakdown_keys:
  "(\<forall>scored err x.
      process_scores sf t batch ai_scores [] = (scored, err) \<and> x \<in> set scored \<longrightarrow>
        set (map fst (similarity_factors x)) = {''location'', ''size'', ''age'', ''zoning'', ''value''} \<and>
        ''sale_price'' \<notin> set (map fst (similarity_factors x))) \<and>
   (\<forall>scored x.
      traditional_score_candidates sf t candidates = Inr scored \<and> x \<in> set scored \<longrightarrow>
        set (map fst (similarity_factors x)) =
          {''location'', ''size'', ''age'', ''zoning'', ''value'', ''sale_price''})"
proof (intro conjI allI impI)
  fix scored err x
  assume "process_scores sf t batch ai_scores [] = (scored, err) \<and> x \<in> set scored"
  then have k: "map fst (similarity_factors x) = [''location'', ''size'', ''age'', ''zoning'', ''value'']"
    using process_scores_keys [of sf t batch ai_scores "[]" scored err x] by simp
  show "set (map fst (similarity_factors x)) = {''location'', ''size'', ''age'', ''zoning'', ''value''}"
    unfolding k by simp
  show "''sale_price'' \<notin> set (map fst (similarity_factors x))"
    unfolding k by simp
next
  fix scored x
  assume "traditional_score_candidates sf t candidates = Inr scored \<and> x \<in> set scored"
  then have k: "map fst (similarity_factors x) =
      [''location'', ''size'', ''age'', ''zoning'', ''value'', ''sale_price'']"
    using traditional_loop_keys [of sf t candidates "[]" scored x]
    by (simp add: traditional_score_candidates_def)
  show "set (map fst (similarity_factors x)) =
          {''location'', ''size'', ''age'', ''zoning'', ''value'', ''sale_price''}"
    unfolding k by simp
qed

theorem breakdown_keys_witness:
  "process_scores SimilarityFactors_default example_target
       [example_candidate_large, example_candidate]
       [ScoreData (Some ''C1'') 0.85 0.9, ScoreData (Some ''C2'') 0.2 0.9, ScoreData None 0.9 0.9] []
     = ([example_ai_scored], None) \<and>
   set (map fst (similarity_factors example_ai_scored)) =
     {''location'', ''size'', ''age'', ''zoning'', ''value''} \<and>
   traditional_score_candidates SimilarityFactors_default example_target
       [example_candidate_large, example_target, example_candidate]
     = Inr [example_scored_large, example_scored] \<and>
   set (map fst (similarity_factors example_scored)) =
     {''location'', ''size'', ''age'', ''zoning'', ''value'', ''sale_price''}"
proof -
  have p: "process_scores SimilarityFactors_default example_target
       [example_candidate_large, example_candidate]
       [ScoreData (Some ''C1'') 0.85 0.9, ScoreData (Some ''C2'') 0.2 0.9, ScoreData None 0.9 0.9] []
     = ([example_ai_scored], None)"
    by (simp add: example_ids example_detailed example_distance example_ai_scored_def)
  note k = breakdown_keys [of SimilarityFactors_default example_target
      "[example_candidate_large, example_candidate]"
      "[ScoreData (Some ''C1'') 0.85 0.9, ScoreData (Some ''C2'') 0.2 0.9, ScoreData None 0.9 0.9]"
      "[example_candidate_large, example_target, example_candidate]"]
  have a: "set (map fst (similarity_factors example_ai_scored)) =
     {''location'', ''size'', ''age'', ''zoning'', ''value''}"
    using k p by (metis list.set_intros(1))
  have b: "set (map fst (similarity_factors example_scored)) =
     {''location'', ''size'', ''age'', ''zoning'', ''value'', ''sale_price''}"
    using k example_traditional by (metis list.set_intros(1) list.set_intros(2))
  from p a example_traditional b show ?thesis by blast
qed

end
